theory Spec2Isabelle
  imports Complex_Main
begin

section \<open>linestyle: hand-drawn strokes and the plot layer\<close>

text \<open>
  A shallow embedding of \<^verbatim>\<open>src/linestyle/strokes.py\<close> and \<^verbatim>\<open>src/linestyle/plot.py\<close>.
  Python floats are modelled as real numbers, Python ints as \<open>int\<close>. An exception
  raised by the Python code is a value \<open>Inl e\<close> of the result type. The \<^verbatim>\<open>svgwrite\<close>
  drawing is the list of the paths added to it so far, in order; a function that adds
  paths takes the drawing and returns the extended one.
\<close>

subsection \<open>Data model\<close>

datatype error = ZeroDivisionError | IndexError

type_synonym point = "real \<times> real"

record StrokeStyle =
  width :: real
  amp :: real
  waves :: real
  taper :: real
  color :: string
  linecap :: string
  linejoin :: string

record PlotBox =
  x0 :: real
  y0 :: real
  w :: real
  h :: real
  xmin :: real
  xmax :: real
  ymin :: real
  ymax :: real

text \<open>
  A path of the drawing: its presentation attributes and its commands. The commands
  \<^verbatim>\<open>M x,y\<close> and \<^verbatim>\<open>L x,y\<close> carry the coordinates themselves; rendering them as
  decimal text (two digits for coordinates, one for the dash pattern) is left to the sink.
\<close>

datatype cmd = M point | L point

record path =
  fill :: string
  stroke :: string
  stroke_width :: real
  stroke_linecap :: string
  stroke_linejoin :: string
  stroke_dasharray :: "(real \<times> real) option"
  stroke_dashoffset :: "real option"
  commands :: "cmd list"

type_synonym drawing = "path list"

subsection \<open>The noise source\<close>

text \<open>
  \<^verbatim>\<open>numpy.random.default_rng(seed)\<close> is a library generator. It is taken as a
  parameter \<open>bitgen\<close>: for each seed the sequence of raw draws from the unit interval
  that the generator hands out. A generator state is that sequence and a cursor;
  \<^verbatim>\<open>rng.uniform(low, high)\<close> consumes one raw draw \<open>u\<close> and returns
  \<open>low + (high - low) * u\<close>. The library rejects a negative seed; the seeds meant here
  are those it accepts, and the code of this repository puts no other condition on them.
\<close>

type_synonym bitgen = "int \<Rightarrow> nat \<Rightarrow> real"

datatype rng = Rng (draws: "nat \<Rightarrow> real") (cursor: nat)

definition default_rng :: "bitgen \<Rightarrow> int \<Rightarrow> rng" where
  "default_rng bg seed = Rng (bg seed) 0"

definition uniform :: "rng \<Rightarrow> real \<Rightarrow> real \<Rightarrow> real \<times> rng" where
  "uniform g low high =
     (low + (high - low) * draws g (cursor g), Rng (draws g) (Suc (cursor g)))"

subsection \<open>strokes.py: the segment kernel\<close>

definition py_div :: "real \<Rightarrow> real \<Rightarrow> error + real" where
  "py_div a b = (if b = 0 then Inl ZeroDivisionError else Inr (a / b))"

definition hypot :: "real \<Rightarrow> real \<Rightarrow> real" where
  "hypot vx vy = sqrt (vx\<^sup>2 + vy\<^sup>2)"

definition unit :: "real \<Rightarrow> real \<Rightarrow> real \<times> real" where
  "unit vx vy =
     (let n = hypot vx vy in
      if n = 0 then (0, 0) else (vx / n, vy / n))"

definition normal :: "point \<Rightarrow> point \<Rightarrow> real \<times> real" where
  "normal p0 p1 =
     (let dx = fst p1 - fst p0;
          dy = snd p1 - snd p0;
          (ux, uy) = unit dx dy
      in (- uy, ux))"

definition taper_k :: "real \<Rightarrow> real \<Rightarrow> real" where
  "taper_k t tp =
     (if tp \<le> 0 then 1
      else let edge = min t (1 - t) in min 1 (edge / tp))"

definition smooth_offset :: "real \<Rightarrow> rng \<Rightarrow> real \<Rightarrow> real \<times> rng" where
  "smooth_offset t g wv =
     (let (phase, g1) = uniform g 0 (2 * pi);
          (a2, g2) = uniform g1 (- 0.10) 0.10
      in (sin (2 * pi * wv * t + phase)
            + a2 * sin (2 * pi * (2 * wv) * t + 0.7 * phase), g2))"

text \<open>
  One iteration of the sampling loop shared, line for line, by \<^verbatim>\<open>stroke_line\<close> and
  \<^verbatim>\<open>stroke_line_dashed\<close>: the body for index \<open>i\<close>, with \<open>(nx, ny)\<close> the normal
  computed before the loop. The division \<^verbatim>\<open>i / (n - 1)\<close> raises when \<open>n = 1\<close>.
  The two lines computing \<^verbatim>\<open>k\<close> and \<^verbatim>\<open>off\<close> are \<open>stroke_off\<close>.
\<close>

definition stroke_off :: "StrokeStyle \<Rightarrow> real \<Rightarrow> rng \<Rightarrow> real \<times> rng" where
  "stroke_off style t g =
     (let k = taper_k t (taper style);
          (s, g') = smooth_offset t g (waves style)
      in (amp style * k * s, g'))"

definition stroke_step ::
  "point \<Rightarrow> point \<Rightarrow> StrokeStyle \<Rightarrow> int \<Rightarrow> real \<times> real \<Rightarrow> nat \<Rightarrow> rng \<Rightarrow> error + (point \<times> rng)" where
  "stroke_step p0 p1 style n nrm i g =
     (case py_div (real i) (real_of_int (n - 1)) of
        Inl e \<Rightarrow> Inl e
      | Inr t \<Rightarrow>
          let bx = fst p0 + (fst p1 - fst p0) * t;
              by = snd p0 + (snd p1 - snd p0) * t;
              (off, g') = stroke_off style t g;
              x = bx + fst nrm * off;
              y = by + snd nrm * off
          in Inr ((x, y), g'))"

fun stroke_pts ::
  "point \<Rightarrow> point \<Rightarrow> StrokeStyle \<Rightarrow> int \<Rightarrow> real \<times> real \<Rightarrow> nat list \<Rightarrow> rng
     \<Rightarrow> error + (point list \<times> rng)" where
  "stroke_pts p0 p1 style n nrm [] g = Inr ([], g)"
| "stroke_pts p0 p1 style n nrm (i # is) g =
     (case stroke_step p0 p1 style n nrm i g of
        Inl e \<Rightarrow> Inl e
      | Inr (pt, g') \<Rightarrow>
          (case stroke_pts p0 p1 style n nrm is g' of
             Inl e \<Rightarrow> Inl e
           | Inr (pts, g'') \<Rightarrow> Inr (pt # pts, g'')))"

text \<open>\<^verbatim>\<open>range(n)\<close> for a Python int: empty when \<open>n \<le> 0\<close>.\<close>

definition range_n :: "int \<Rightarrow> nat list" where
  "range_n n = [0..<nat n]"

text \<open>
  The path built from the sampled points: \<^verbatim>\<open>pts[0]\<close> raises IndexError on an empty
  list, which happens exactly when the loop did not run.
\<close>

definition push_pts :: "path \<Rightarrow> point list \<Rightarrow> error + path" where
  "push_pts pth pts =
     (case pts of
        [] \<Rightarrow> Inl IndexError
      | q # qs \<Rightarrow> Inr (pth\<lparr>commands := commands pth @ M q # map L qs\<rparr>))"

definition new_path :: "StrokeStyle \<Rightarrow> (real \<times> real) option \<Rightarrow> path" where
  "new_path style dasharray =
     \<lparr>fill = ''none'', stroke = color style, stroke_width = width style,
      stroke_linecap = linecap style, stroke_linejoin = linejoin style,
      stroke_dasharray = dasharray, stroke_dashoffset = None, commands = []\<rparr>"

definition stroke_line ::
  "bitgen \<Rightarrow> drawing \<Rightarrow> point \<Rightarrow> point \<Rightarrow> StrokeStyle \<Rightarrow> int \<Rightarrow> int \<Rightarrow> error + (path \<times> drawing)" where
  "stroke_line bg dwg p0 p1 style seed n =
     (let g = default_rng bg seed;
          nrm = normal p0 p1
      in case stroke_pts p0 p1 style n nrm (range_n n) g of
           Inl e \<Rightarrow> Inl e
         | Inr (pts, g') \<Rightarrow>
             (case push_pts (new_path style None) pts of
                Inl e \<Rightarrow> Inl e
              | Inr pth \<Rightarrow> Inr (pth, dwg @ [pth])))"

definition stroke_line_dashed ::
  "bitgen \<Rightarrow> drawing \<Rightarrow> point \<Rightarrow> point \<Rightarrow> StrokeStyle \<Rightarrow> int \<Rightarrow> int \<Rightarrow> real \<Rightarrow> real
     \<Rightarrow> error + (path \<times> drawing)" where
  "stroke_line_dashed bg dwg p0 p1 style seed n dash_base gap_base =
     (let g = default_rng bg seed;
          (u1, g1) = uniform g 0.85 1.15;
          dash = dash_base * u1;
          (u2, g2) = uniform g1 0.85 1.20;
          gap = gap_base * u2;
          nrm = normal p0 p1
      in case stroke_pts p0 p1 style n nrm (range_n n) g2 of
           Inl e \<Rightarrow> Inl e
         | Inr (pts, g3) \<Rightarrow>
             (case push_pts (new_path style (Some (dash, gap))) pts of
                Inl e \<Rightarrow> Inl e
              | Inr pth \<Rightarrow>
                  let (dashoffset, g4) = uniform g3 0 (dash + gap);
                      pth' = pth\<lparr>stroke_dashoffset := Some dashoffset\<rparr>
                  in Inr (pth', dwg @ [pth'])))"

subsection \<open>strokes.py: composite primitives\<close>

text \<open>
  The loop of \<^verbatim>\<open>stroke_polyline\<close> over \<open>i = 0 .. len(points) - 2\<close>: the remaining
  points are \<open>points[i:]\<close>, so the segment drawn is between its first two elements.
\<close>

fun polyline_loop ::
  "bitgen \<Rightarrow> drawing \<Rightarrow> point list \<Rightarrow> StrokeStyle \<Rightarrow> int \<Rightarrow> int \<Rightarrow> nat \<Rightarrow> error + drawing" where
  "polyline_loop bg dwg (p # q # rest) style seed n_per_seg i =
     (case stroke_line bg dwg p q style (seed + int i * 97) n_per_seg of
        Inl e \<Rightarrow> Inl e
      | Inr (_, dwg') \<Rightarrow> polyline_loop bg dwg' (q # rest) style seed n_per_seg (Suc i))"
| "polyline_loop bg dwg points style seed n_per_seg i = Inr dwg"

definition stroke_polyline ::
  "bitgen \<Rightarrow> drawing \<Rightarrow> point list \<Rightarrow> StrokeStyle \<Rightarrow> int \<Rightarrow> int \<Rightarrow> error + drawing" where
  "stroke_polyline bg dwg points style seed n_per_seg =
     (if length points < 2 then Inr dwg
      else polyline_loop bg dwg points style seed n_per_seg 0)"

text \<open>
  \<^verbatim>\<open>ticks_on_axis\<close>: the loop over \<^verbatim>\<open>enumerate(tick_positions_t)\<close>, the index
  carried along.
\<close>

fun ticks_loop ::
  "bitgen \<Rightarrow> drawing \<Rightarrow> point \<Rightarrow> point \<Rightarrow> real \<times> real \<Rightarrow> real list \<Rightarrow> real \<Rightarrow> StrokeStyle \<Rightarrow> int
     \<Rightarrow> nat \<Rightarrow> error + drawing" where
  "ticks_loop bg dwg axis_p0 axis_p1 nrm [] tick_len style seed i = Inr dwg"
| "ticks_loop bg dwg axis_p0 axis_p1 nrm (t # ts) tick_len style seed i =
     (let x = fst axis_p0 + (fst axis_p1 - fst axis_p0) * t;
          y = snd axis_p0 + (snd axis_p1 - snd axis_p0) * t;
          a = (x - fst nrm * tick_len / 2, y - snd nrm * tick_len / 2);
          b = (x + fst nrm * tick_len / 2, y + snd nrm * tick_len / 2)
      in case stroke_line bg dwg a b style (seed + int i * 31) 12 of
           Inl e \<Rightarrow> Inl e
         | Inr (_, dwg') \<Rightarrow>
             ticks_loop bg dwg' axis_p0 axis_p1 nrm ts tick_len style seed (Suc i))"

definition ticks_on_axis ::
  "bitgen \<Rightarrow> drawing \<Rightarrow> point \<Rightarrow> point \<Rightarrow> real list \<Rightarrow> real \<Rightarrow> StrokeStyle \<Rightarrow> int
     \<Rightarrow> error + drawing" where
  "ticks_on_axis bg dwg axis_p0 axis_p1 tick_positions_t tick_len style seed =
     ticks_loop bg dwg axis_p0 axis_p1 (normal axis_p0 axis_p1) tick_positions_t
       tick_len style seed 0"

definition radians :: "real \<Rightarrow> real" where
  "radians deg = deg * pi / 180"

definition rot :: "real \<Rightarrow> real \<Rightarrow> real \<Rightarrow> real \<times> real" where
  "rot vx vy ang =
     (let ca = cos ang; sa = sin ang
      in (vx * ca - vy * sa, vx * sa + vy * ca))"

text \<open>
  The local function \<^verbatim>\<open>kink_point\<close> of \<^verbatim>\<open>arrow_head_gesture\<close> draws from the
  generator of the enclosing call, so it takes the generator and returns it.
\<close>

definition kink_point :: "rng \<Rightarrow> point \<Rightarrow> point \<Rightarrow> real \<Rightarrow> point \<times> rng" where
  "kink_point g p0 tip k =
     (let vx = fst tip - fst p0;
          vy = snd tip - snd p0;
          (ux, uy) = unit vx vy;
          nx = - uy;
          ny = ux;
          (kk, g1) = uniform g (- k) k;
          (t, g2) = uniform g1 0.70 0.85;
          bx = fst p0 + (fst tip - fst p0) * t;
          by = snd p0 + (snd tip - snd p0) * t
      in ((bx + nx * kk, by + ny * kk), g2))"

definition arrow_head_gesture ::
  "bitgen \<Rightarrow> drawing \<Rightarrow> point \<Rightarrow> point \<Rightarrow> StrokeStyle \<Rightarrow> int \<Rightarrow> real \<Rightarrow> real \<Rightarrow> error + drawing" where
  "arrow_head_gesture bg dwg tip direction style seed sz open_angle_deg =
     (let g = default_rng bg seed;
          (dx, dy) = unit (fst direction) (snd direction);
          (uL, g1) = uniform g (- 9) 9;
          angL = radians (open_angle_deg + uL);
          (uR, g2) = uniform g1 (- 12) 12;
          angR = radians (open_angle_deg + uR);
          (sL, g3) = uniform g2 0.85 1.15;
          sizeL = sz * sL;
          (sR, g4) = uniform g3 0.75 1.20;
          sizeR = sz * sR;
          (lx, ly) = rot dx dy angL;
          (rx, ry) = rot dx dy (- angR);
          pL0 = (fst tip - lx * sizeL, snd tip - ly * sizeL);
          pR0 = (fst tip - rx * sizeR, snd tip - ry * sizeR);
          (pL1, g5) = kink_point g4 pL0 tip 2.0;
          (pR1, g6) = kink_point g5 pR0 tip 2.5
      in case stroke_line bg dwg pL0 pL1 style (seed + 111) 14 of
           Inl e \<Rightarrow> Inl e
         | Inr (_, dwg1) \<Rightarrow>
       case stroke_line bg dwg1 pL1 tip style (seed + 112) 10 of
           Inl e \<Rightarrow> Inl e
         | Inr (_, dwg2) \<Rightarrow>
       case stroke_line bg dwg2 pR0 pR1 style (seed + 211) 14 of
           Inl e \<Rightarrow> Inl e
         | Inr (_, dwg3) \<Rightarrow>
       case stroke_line bg dwg3 pR1 tip style (seed + 212) 10 of
           Inl e \<Rightarrow> Inl e
         | Inr (_, dwg4) \<Rightarrow> Inr dwg4)"

subsection \<open>plot.py\<close>

definition xy :: "PlotBox \<Rightarrow> real \<Rightarrow> real \<Rightarrow> error + point" where
  "xy box x y =
     (case py_div (x - xmin box) (xmax box - xmin box) of
        Inl e \<Rightarrow> Inl e
      | Inr u \<Rightarrow>
     (case py_div (y - ymin box) (ymax box - ymin box) of
        Inl e \<Rightarrow> Inl e
      | Inr v \<Rightarrow>
          let sx = x0 box + u * w box;
              sy = y0 box + (1 - v) * h box
          in Inr (sx, sy)))"

text \<open>
  \<^verbatim>\<open>sample_func\<close>: the caller's function \<open>f\<close> is a total function on the reals
  here; exceptions raised by a caller's function are not modelled.
\<close>

fun sample_func_loop :: "PlotBox \<Rightarrow> (real \<Rightarrow> real) \<Rightarrow> int \<Rightarrow> nat list \<Rightarrow> error + point list" where
  "sample_func_loop box f n [] = Inr []"
| "sample_func_loop box f n (i # is) =
     (case py_div (real i) (real_of_int (n - 1)) of
        Inl e \<Rightarrow> Inl e
      | Inr t \<Rightarrow>
          let x = xmin box + (xmax box - xmin box) * t;
              y = f x
          in case xy box x y of
               Inl e \<Rightarrow> Inl e
             | Inr pt \<Rightarrow>
                 (case sample_func_loop box f n is of
                    Inl e \<Rightarrow> Inl e
                  | Inr pts \<Rightarrow> Inr (pt # pts)))"

definition sample_func :: "PlotBox \<Rightarrow> (real \<Rightarrow> real) \<Rightarrow> int \<Rightarrow> error + point list" where
  "sample_func box f n = sample_func_loop box f n (range_n n)"

text \<open>\<^verbatim>\<open>[i / ticks for i in range(1, ticks)]\<close>, evaluated only when \<open>ticks > 0\<close>.\<close>

definition tick_fractions :: "int \<Rightarrow> real list" where
  "tick_fractions ticks = map (\<lambda>i. real_of_int i / real_of_int ticks) [1..ticks - 1]"

definition draw_axes ::
  "bitgen \<Rightarrow> drawing \<Rightarrow> PlotBox \<Rightarrow> StrokeStyle \<Rightarrow> int \<Rightarrow> int \<Rightarrow> bool \<Rightarrow> error + drawing" where
  "draw_axes bg dwg box axis_style seed ticks arrows =
     (let x_axis_y = ymin box;
          y_axis_x = xmin box
      in case xy box y_axis_x x_axis_y of
           Inl e \<Rightarrow> Inl e
         | Inr origin \<Rightarrow>
       case xy box (xmax box) x_axis_y of
           Inl e \<Rightarrow> Inl e
         | Inr x_end \<Rightarrow>
       case xy box y_axis_x (ymax box) of
           Inl e \<Rightarrow> Inl e
         | Inr y_end \<Rightarrow>
       case stroke_line bg dwg origin x_end axis_style (seed + 1) 90 of
           Inl e \<Rightarrow> Inl e
         | Inr (_, dwg1) \<Rightarrow>
       case stroke_line bg dwg1 origin y_end axis_style (seed + 2) 90 of
           Inl e \<Rightarrow> Inl e
         | Inr (_, dwg2) \<Rightarrow>
       case (if arrows
             then (case arrow_head_gesture bg dwg2 x_end (1, 0) axis_style (seed + 3) 14 30 of
                     Inl e \<Rightarrow> Inl e
                   | Inr dwg3 \<Rightarrow>
                       arrow_head_gesture bg dwg3 y_end (0, - 1) axis_style (seed + 4) 14 30)
             else Inr dwg2) of
           Inl e \<Rightarrow> Inl e
         | Inr dwg4 \<Rightarrow>
             if ticks > 0
             then let ts = tick_fractions ticks
                  in case ticks_on_axis bg dwg4 origin x_end ts 20 axis_style (seed + 10) of
                       Inl e \<Rightarrow> Inl e
                     | Inr dwg5 \<Rightarrow>
                         ticks_on_axis bg dwg5 origin y_end ts 20 axis_style (seed + 20)
             else Inr dwg4)"

definition draw_curve ::
  "bitgen \<Rightarrow> drawing \<Rightarrow> point list \<Rightarrow> StrokeStyle \<Rightarrow> int \<Rightarrow> int \<Rightarrow> error + drawing" where
  "draw_curve bg dwg pts style seed n_per_seg =
     stroke_polyline bg dwg pts style seed n_per_seg"

subsection \<open>examples/make_gallery.py: the parabola figure\<close>

definition BOX :: PlotBox where
  "BOX = \<lparr>x0 = 120, y0 = 120, w = 900 - 2 * 120, h = 900 - 2 * 120,
          xmin = - 1.2, xmax = 4.8, ymin = - 2.6, ymax = 6.4\<rparr>"

definition axis_style :: StrokeStyle where
  "axis_style = \<lparr>width = 2.2, amp = 0.25, waves = 1.0, taper = 0.0,
                 color = ''#111'', linecap = ''round'', linejoin = ''round''\<rparr>"

definition data_style :: StrokeStyle where
  "data_style = \<lparr>width = 2.2, amp = 0.55, waves = 0.75, taper = 0.10,
                 color = ''#111'', linecap = ''round'', linejoin = ''round''\<rparr>"

definition parabola_f :: "real \<Rightarrow> real" where
  "parabola_f x = 0.35 * (x - 1.6) * (x - 1.6) - 1.3"

text \<open>The style with the defaults of the \<^verbatim>\<open>StrokeStyle\<close> dataclass.\<close>

definition default_style :: StrokeStyle where
  "default_style = \<lparr>width = 2.2, amp = 0.8, waves = 1.2, taper = 0.08,
                    color = ''#111'', linecap = ''round'', linejoin = ''round''\<rparr>"

subsection \<open>The kernel in closed form\<close>

text \<open>
  The drift formula as the specification words it: a phase and a second-harmonic weight,
  then \<open>offset(t) = sin(2\<pi>\<sqdot>waves\<sqdot>t + phase) + a2\<sqdot>sin(2\<pi>\<sqdot>2\<sqdot>waves\<sqdot>t + 0.7\<sqdot>phase)\<close>.
\<close>

definition spec_offset :: "real \<Rightarrow> real \<Rightarrow> real \<Rightarrow> real \<Rightarrow> real" where
  "spec_offset wv phase a2 t =
     sin (2 * pi * wv * t + phase) + a2 * sin (2 * pi * 2 * wv * t + 0.7 * phase)"

text \<open>
  The point of sample \<open>i\<close> when the phase and the weight come from the raw draws number
  \<open>c\<close> and \<open>c + 1\<close> of the sequence \<open>raw\<close>.
\<close>

definition sample_point ::
  "point \<Rightarrow> point \<Rightarrow> StrokeStyle \<Rightarrow> int \<Rightarrow> (nat \<Rightarrow> real) \<Rightarrow> nat \<Rightarrow> nat \<Rightarrow> point" where
  "sample_point p0 p1 style n raw c i =
     (let t = real i / real_of_int (n - 1);
          phase = 2 * pi * raw c;
          a2 = - 0.10 + 0.20 * raw (Suc c);
          off = amp style * taper_k t (taper style) * spec_offset (waves style) phase a2 t
      in (fst p0 + (fst p1 - fst p0) * t + fst (normal p0 p1) * off,
          snd p0 + (snd p1 - snd p0) * t + snd (normal p0 p1) * off))"

text \<open>What the code computes: sample \<open>i\<close> reads the draws \<open>2i\<close> and \<open>2i + 1\<close>.\<close>

definition kernel_pts :: "bitgen \<Rightarrow> point \<Rightarrow> point \<Rightarrow> StrokeStyle \<Rightarrow> int \<Rightarrow> int \<Rightarrow> point list" where
  "kernel_pts bg p0 p1 style seed n =
     map (\<lambda>i. sample_point p0 p1 style n (bg seed) (2 * i) i) (range_n n)"

text \<open>
  What the specification describes: one pair \<open>(phase, a2)\<close> per stroke, the draws \<open>0\<close>
  and \<open>1\<close>, used at every sample.
\<close>

definition spec_perturb_segment ::
  "bitgen \<Rightarrow> point \<Rightarrow> point \<Rightarrow> StrokeStyle \<Rightarrow> int \<Rightarrow> int \<Rightarrow> point list" where
  "spec_perturb_segment bg p0 p1 style seed n =
     map (\<lambda>i. sample_point p0 p1 style n (bg seed) 0 i) (range_n n)"

definition path_of :: "StrokeStyle \<Rightarrow> point list \<Rightarrow> path" where
  "path_of style pts =
     (new_path style None)\<lparr>commands := M (hd pts) # map L (tl pts)\<rparr>"

definition points_of :: "path \<Rightarrow> point list" where
  "points_of pth = map (\<lambda>c. case c of M p \<Rightarrow> p | L p \<Rightarrow> p) (commands pth)"

text \<open>The point sequence of a kernel call, read off the path it returns.\<close>

definition stroke_points ::
  "bitgen \<Rightarrow> drawing \<Rightarrow> point \<Rightarrow> point \<Rightarrow> StrokeStyle \<Rightarrow> int \<Rightarrow> int \<Rightarrow> error + point list" where
  "stroke_points bg dwg p0 p1 style seed n =
     (case stroke_line bg dwg p0 p1 style seed n of
        Inl e \<Rightarrow> Inl e
      | Inr (pth, _) \<Rightarrow> Inr (points_of pth))"

subsection \<open>Concrete generators for the examples\<close>

text \<open>A generator whose raw draws are all \<open>1/2\<close>, for every seed.\<close>

definition half_bitgen :: bitgen where
  "half_bitgen seed i = 1 / 2"

text \<open>
  A generator whose raw draws are \<open>0, 1/2, 1/4, 1/2, 0, 1/2, 0, 1/2, \<dots>\<close> for every seed:
  the first phase drawn is \<open>0\<close>, the second \<open>\<pi>/2\<close>, and every weight \<open>a2\<close> is \<open>0\<close>.
\<close>

definition jitter_bitgen :: bitgen where
  "jitter_bitgen seed i = (if i = 2 then 1 / 4 else if odd i then 1 / 2 else 0)"

text \<open>
  The points of a dashed stroke: as \<open>kernel_pts\<close>, but the geometry starts at draw
  number \<open>2\<close>, after the draws for the dash and the gap.
\<close>

definition dashed_pts :: "bitgen \<Rightarrow> point \<Rightarrow> point \<Rightarrow> StrokeStyle \<Rightarrow> int \<Rightarrow> int \<Rightarrow> point list" where
  "dashed_pts bg p0 p1 style seed n =
     map (\<lambda>i. sample_point p0 p1 style n (bg seed) (2 + 2 * i) i) (range_n n)"

text \<open>A box whose data window has no height.\<close>

definition flat_box :: PlotBox where
  "flat_box = \<lparr>x0 = 0, y0 = 0, w = 100, h = 100, xmin = 0, xmax = 1, ymin = 2, ymax = 2\<rparr>"

text \<open>
  The path a kernel call of \<open>n \<ge> 2\<close> samples emits (lemma \<open>stroke_line_ok\<close>), and the
  paths a polyline emits: segment \<open>i\<close> runs from \<open>points[i]\<close> to \<open>points[i + 1]\<close> with
  the seed \<open>seed + i * 97\<close>.
\<close>

definition stroke_path :: "bitgen \<Rightarrow> point \<Rightarrow> point \<Rightarrow> StrokeStyle \<Rightarrow> int \<Rightarrow> int \<Rightarrow> path" where
  "stroke_path bg p0 p1 style seed n = path_of style (kernel_pts bg p0 p1 style seed n)"

definition polyline_paths ::
  "bitgen \<Rightarrow> point list \<Rightarrow> StrokeStyle \<Rightarrow> int \<Rightarrow> int \<Rightarrow> path list" where
  "polyline_paths bg points style seed n_per_seg =
     map (\<lambda>i. stroke_path bg (points ! i) (points ! Suc i) style (seed + int i * 97) n_per_seg)
       [0..<length points - 1]"

text \<open>The device point of sample \<open>i\<close> of \<^verbatim>\<open>sample_func\<close> on a box with a proper window.\<close>

definition sampled_point :: "PlotBox \<Rightarrow> (real \<Rightarrow> real) \<Rightarrow> int \<Rightarrow> nat \<Rightarrow> point" where
  "sampled_point box f n i =
     (let t = real i / real_of_int (n - 1);
          x = xmin box + (xmax box - xmin box) * t
      in (x0 box + (x - xmin box) / (xmax box - xmin box) * w box,
          y0 box + (1 - (f x - ymin box) / (ymax box - ymin box)) * h box))"

text \<open>
  The tick stroke at the parametric position \<open>t\<close> of an axis: the kernel's path between
  the two points half a tick length to either side of the axis point, along the normal.
\<close>

definition tick_stroke ::
  "bitgen \<Rightarrow> point \<Rightarrow> point \<Rightarrow> real \<Rightarrow> real \<Rightarrow> StrokeStyle \<Rightarrow> int \<Rightarrow> path" where
  "tick_stroke bg axis_p0 axis_p1 t tick_len style seed =
     (let nrm = normal axis_p0 axis_p1;
          x = fst axis_p0 + (fst axis_p1 - fst axis_p0) * t;
          y = snd axis_p0 + (snd axis_p1 - snd axis_p0) * t;
          a = (x - fst nrm * tick_len / 2, y - snd nrm * tick_len / 2);
          b = (x + fst nrm * tick_len / 2, y + snd nrm * tick_len / 2)
      in stroke_path bg a b style seed 12)"

text \<open>
  The tick strokes of one axis for a tick count \<open>ticks\<close>: one stroke at each fraction
  \<open>i / ticks\<close> for \<open>i = 1 .. ticks - 1\<close>, of length 20, the stroke of fraction
  \<open>i / ticks\<close> with the seed \<open>seed + (i - 1) * 31\<close>.
\<close>

definition axis_ticks ::
  "bitgen \<Rightarrow> point \<Rightarrow> point \<Rightarrow> StrokeStyle \<Rightarrow> int \<Rightarrow> int \<Rightarrow> path list" where
  "axis_ticks bg axis_p0 axis_p1 style seed ticks =
     map (\<lambda>i. tick_stroke bg axis_p0 axis_p1 (real_of_int i / real_of_int ticks) 20 style
                 (seed + (i - 1) * 31))
       [1..ticks - 1]"

text \<open>
  The tick strokes of the two axes of a box, with their end points written out. The
  bottom axis runs along \<open>y = y0 + h\<close> from \<open>x0\<close> to \<open>x0 + w\<close>: its tick at the fraction
  \<open>i / ticks\<close> is the vertical stroke from 10 units on one side of the axis point to 10 units
  on the other. The left axis runs along \<open>x = x0\<close> from \<open>y0 + h\<close> to \<open>y0\<close>: its tick
  is the horizontal stroke of the same length through the axis point.
\<close>

definition bottom_axis_ticks :: "bitgen \<Rightarrow> PlotBox \<Rightarrow> StrokeStyle \<Rightarrow> int \<Rightarrow> int \<Rightarrow> path list" where
  "bottom_axis_ticks bg box style seed ticks =
     map (\<lambda>i. stroke_path bg
                 (x0 box + w box * (real_of_int i / real_of_int ticks), y0 box + h box - 10)
                 (x0 box + w box * (real_of_int i / real_of_int ticks), y0 box + h box + 10)
                 style (seed + (i - 1) * 31) 12)
       [1..ticks - 1]"

definition left_axis_ticks :: "bitgen \<Rightarrow> PlotBox \<Rightarrow> StrokeStyle \<Rightarrow> int \<Rightarrow> int \<Rightarrow> path list" where
  "left_axis_ticks bg box style seed ticks =
     map (\<lambda>i. stroke_path bg
                 (x0 box - 10, y0 box + h box - h box * (real_of_int i / real_of_int ticks))
                 (x0 box + 10, y0 box + h box - h box * (real_of_int i / real_of_int ticks))
                 style (seed + (i - 1) * 31) 12)
       [1..ticks - 1]"

section \<open>The segment kernel\<close>

subsection \<open>The sampling loop in closed form\<close>

lemma smooth_offset_Rng:
  "smooth_offset t (Rng raw c) wv =
     (spec_offset wv (2 * pi * raw c) (- 0.10 + 0.20 * raw (Suc c)) t, Rng raw (c + 2))"
  by (simp add: smooth_offset_def uniform_def spec_offset_def algebra_simps)

lemma stroke_step_Rng:
  assumes "n \<noteq> 1"
  shows "stroke_step p0 p1 style n (normal p0 p1) i (Rng raw c) =
           Inr (sample_point p0 p1 style n raw c i, Rng raw (c + 2))"
  using assms
  by (simp add: stroke_step_def stroke_off_def py_div_def smooth_offset_Rng sample_point_def
      Let_def)

lemma stroke_step_raises:
  "stroke_step p0 p1 style 1 nrm i g = Inl ZeroDivisionError"
  by (simp add: stroke_step_def py_div_def)

lemma stroke_pts_Rng:
  assumes "n \<noteq> 1"
  shows "stroke_pts p0 p1 style n (normal p0 p1) js (Rng raw c) =
           Inr (map (\<lambda>k. sample_point p0 p1 style n raw (c + 2 * k) (js ! k)) [0..<length js],
                Rng raw (c + 2 * length js))"
  using assms
proof (induction js arbitrary: c)
  case Nil
  then show ?case by simp
next
  case (Cons j js)
  have "map (\<lambda>k. sample_point p0 p1 style n raw (c + 2 * k) ((j # js) ! k)) [0..<length (j # js)]
        = sample_point p0 p1 style n raw c j
          # map (\<lambda>k. sample_point p0 p1 style n raw (c + 2 + 2 * k) (js ! k)) [0..<length js]"
    by (simp add: upt_rec[of 0] map_Suc_upt[symmetric] del: upt_Suc)
  with Cons show ?case
    by (simp add: stroke_step_Rng)
qed

lemma stroke_pts_range:
  assumes "n \<noteq> 1"
  shows "stroke_pts p0 p1 style n (normal p0 p1) (range_n n) (Rng raw c) =
           Inr (map (\<lambda>i. sample_point p0 p1 style n raw (c + 2 * i) i) (range_n n),
                Rng raw (c + 2 * nat n))"
proof -
  have "map (\<lambda>k. sample_point p0 p1 style n raw (c + 2 * k) ([0..<nat n] ! k))
          [0..<length [0..<nat n]]
        = map (\<lambda>i. sample_point p0 p1 style n raw (c + 2 * i) i) [0..<nat n]"
    by (rule map_cong) simp_all
  with stroke_pts_Rng[OF assms, of p0 p1 style "range_n n" raw c] show ?thesis
    by (simp add: range_n_def)
qed

lemma range_n_nonempty: "2 \<le> n \<Longrightarrow> range_n n = 0 # [1..<nat n]"
  by (simp add: range_n_def upt_rec[of 0])

lemma kernel_pts_nonempty: "2 \<le> n \<Longrightarrow> kernel_pts bg p0 p1 style seed n \<noteq> []"
  by (simp add: kernel_pts_def range_n_nonempty)

lemma length_kernel_pts: "length (kernel_pts bg p0 p1 style seed n) = nat n"
  by (simp add: kernel_pts_def range_n_def)

lemma push_pts_new:
  "pts \<noteq> [] \<Longrightarrow>
   push_pts (new_path style da) pts =
     Inr ((new_path style da)\<lparr>commands := M (hd pts) # map L (tl pts)\<rparr>)"
  by (cases pts) (simp_all add: push_pts_def new_path_def)

lemma points_of_path_of: "pts \<noteq> [] \<Longrightarrow> points_of (path_of style pts) = pts"
  by (cases pts) (simp_all add: points_of_def path_of_def new_path_def comp_def)

text \<open>
  With at least two samples the kernel returns: the path holds the points of
  \<open>kernel_pts\<close> and is appended to the drawing.
\<close>

lemma stroke_line_ok:
  assumes "2 \<le> n"
  shows "stroke_line bg dwg p0 p1 style seed n =
           Inr (path_of style (kernel_pts bg p0 p1 style seed n),
                dwg @ [path_of style (kernel_pts bg p0 p1 style seed n)])"
proof -
  from assms have n1: "n \<noteq> 1" by simp
  have ne: "kernel_pts bg p0 p1 style seed n \<noteq> []"
    using assms by (rule kernel_pts_nonempty)
  show ?thesis
    using stroke_pts_range[OF n1, of p0 p1 style "bg seed" 0] push_pts_new[OF ne, of style None]
    by (simp add: stroke_line_def default_rng_def kernel_pts_def path_of_def)
qed

text \<open>With one sample the division raises; with none, \<^verbatim>\<open>pts[0]\<close> does.\<close>

lemma stroke_line_one: "stroke_line bg dwg p0 p1 style seed 1 = Inl ZeroDivisionError"
  by (simp add: stroke_line_def range_n_def stroke_step_raises)

lemma stroke_line_nonpos: "n \<le> 0 \<Longrightarrow> stroke_line bg dwg p0 p1 style seed n = Inl IndexError"
  by (simp add: stroke_line_def range_n_def push_pts_def)

lemma stroke_points_ok:
  "2 \<le> n \<Longrightarrow> stroke_points bg dwg p0 p1 style seed n = Inr (kernel_pts bg p0 p1 style seed n)"
  by (simp add: stroke_points_def stroke_line_ok points_of_path_of kernel_pts_nonempty)

subsection \<open>Degenerate segments\<close>

lemma normal_same: "normal p p = (0, 0)"
  by (simp add: normal_def unit_def hypot_def)

lemma sample_point_same: "sample_point p p style n raw c i = p"
  by (simp add: sample_point_def normal_same Let_def)

lemma kernel_pts_same: "kernel_pts bg p p style seed n = replicate (nat n) p"
  by (simp add: kernel_pts_def sample_point_same range_n_def map_replicate_const)

text \<open>
  Claim C3, as the code has it: for every style, every seed and every sample count
  \<open>n \<ge> 2\<close>, the kernel called with \<open>p0 = p1\<close> returns without raising, and the path it
  returns (and appends to the drawing) holds the point \<open>p0\<close> repeated \<open>n\<close> times.
\<close>

theorem degenerate_segment:
  assumes "2 \<le> n"
  shows "\<exists>pth. stroke_line bg dwg p p style seed n = Inr (pth, dwg @ [pth])
           \<and> points_of pth = replicate (nat n) p"
proof -
  let ?pth = "path_of style (kernel_pts bg p p style seed n)"
  have "stroke_line bg dwg p p style seed n = Inr (?pth, dwg @ [?pth])"
    using assms by (rule stroke_line_ok)
  moreover have "points_of ?pth = replicate (nat n) p"
    using kernel_pts_nonempty[OF assms, of bg p p style seed]
    by (simp add: points_of_path_of kernel_pts_same)
  ultimately show ?thesis by blast
qed

theorem degenerate_segment_witness:
  "(2::int) \<le> 3 \<and>
   (\<exists>pth. stroke_line half_bitgen [] (5, 7) (5, 7) default_style 42 3 = Inr (pth, [] @ [pth])
           \<and> points_of pth = replicate (nat 3) (5, 7))"
  using degenerate_segment[of 3 half_bitgen "[]" "(5, 7)" default_style 42] by simp

text \<open>
  Claim C3 as stated covers every \<open>n\<close>. With \<open>n = 1\<close> the first iteration computes
  \<^verbatim>\<open>0 / (1 - 1)\<close>: the call on the zero-length segment at \<open>(5, 7)\<close> raises
  ZeroDivisionError instead of returning one copy of the point.
\<close>

theorem degenerate_segment_one_sample_raises:
  "stroke_line half_bitgen [] (5, 7) (5, 7) default_style 42 1 = Inl ZeroDivisionError"
  by (simp add: stroke_line_def range_n_def stroke_step_def py_div_def)

subsection \<open>Taper\<close>

lemma taper_k_ends: "0 < tp \<Longrightarrow> taper_k 0 tp = 0 \<and> taper_k 1 tp = 0"
  by (simp add: taper_k_def)

lemma taper_k_off: "tp \<le> 0 \<Longrightarrow> taper_k t tp = 1"
  by (simp add: taper_k_def)

lemma stroke_off_ends:
  "0 < taper style \<Longrightarrow> fst (stroke_off style 0 g) = 0 \<and> fst (stroke_off style 1 g) = 0"
  by (simp add: stroke_off_def taper_k_ends split_beta)

lemma sample_point_first:
  "0 < taper style \<Longrightarrow> sample_point p0 p1 style n raw c 0 = p0"
  by (simp add: sample_point_def taper_k_ends)

lemma sample_point_last:
  "0 < taper style \<Longrightarrow> 2 \<le> n \<Longrightarrow> sample_point p0 p1 style n raw c (nat (n - 1)) = p1"
  by (simp add: sample_point_def taper_k_ends)

lemma hd_kernel_pts:
  "0 < taper style \<Longrightarrow> 2 \<le> n \<Longrightarrow> hd (kernel_pts bg p0 p1 style seed n) = p0"
  by (simp add: kernel_pts_def range_n_nonempty sample_point_first)

lemma last_kernel_pts:
  assumes "0 < taper style" "2 \<le> n"
  shows "last (kernel_pts bg p0 p1 style seed n) = p1"
proof -
  from assms(2) have "range_n n = [0..<nat (n - 1)] @ [nat (n - 1)]"
    by (simp add: range_n_def nat_diff_distrib flip: upt_Suc_append)
  then show ?thesis
    using assms by (simp add: kernel_pts_def sample_point_last)
qed

text \<open>
  Claim C4: for a style with \<open>taper > 0\<close> the taper factor is \<open>0\<close> at \<open>t = 0\<close> and at
  \<open>t = 1\<close>, so the offset \<^verbatim>\<open>off\<close> the kernel applies there is exactly \<open>0\<close>, and a stroke
  of \<open>n \<ge> 2\<close> samples starts exactly at \<open>p0\<close> and ends exactly at \<open>p1\<close>. For
  \<open>taper \<le> 0\<close> the factor is \<open>1\<close> at every \<open>t\<close>: the offset is the amplitude times the
  drift, unattenuated.
\<close>

theorem taper_boundary:
  "(0 < taper style \<longrightarrow>
      taper_k 0 (taper style) = 0 \<and> taper_k 1 (taper style) = 0
      \<and> fst (stroke_off style 0 g) = 0 \<and> fst (stroke_off style 1 g) = 0
      \<and> (2 \<le> n \<longrightarrow> (\<exists>pts. stroke_points bg dwg p0 p1 style seed n = Inr pts
                          \<and> hd pts = p0 \<and> last pts = p1)))
   \<and> (taper style \<le> 0 \<longrightarrow>
      taper_k t (taper style) = 1
      \<and> fst (stroke_off style t g) = amp style * fst (smooth_offset t g (waves style)))"
  by (simp add: taper_k_ends taper_k_off stroke_off_ends stroke_points_ok hd_kernel_pts
      last_kernel_pts)
     (simp add: stroke_off_def taper_k_off split_beta)

theorem taper_boundary_witness:
  "0 < taper default_style \<and> (2::int) \<le> 3
   \<and> taper_k 0 (taper default_style) = 0 \<and> taper_k 1 (taper default_style) = 0
   \<and> fst (stroke_off default_style 0 (default_rng half_bitgen 7)) = 0
   \<and> fst (stroke_off default_style 1 (default_rng half_bitgen 7)) = 0
   \<and> (\<exists>pts. stroke_points half_bitgen [] (0, 0) (3, 4) default_style 7 3 = Inr pts
              \<and> hd pts = (0, 0) \<and> last pts = (3, 4))
   \<and> taper axis_style \<le> 0
   \<and> taper_k (1 / 3) (taper axis_style) = 1
   \<and> fst (stroke_off axis_style (1 / 3) (default_rng half_bitgen 7))
       = amp axis_style * fst (smooth_offset (1 / 3) (default_rng half_bitgen 7) (waves axis_style))"
  using taper_boundary[of default_style "default_rng half_bitgen 7" 3 half_bitgen "[]"
          "(0, 0)" "(3, 4)" 7 "1 / 3"]
        taper_boundary[of axis_style "default_rng half_bitgen 7" 3 half_bitgen "[]"
          "(0, 0)" "(3, 4)" 7 "1 / 3"]
  by (simp add: default_style_def axis_style_def)

subsection \<open>Determinism\<close>

text \<open>
  Claim C2: the kernel is a function of \<open>(p0, p1, style, seed, n)\<close> alone. The generator is
  created inside the call from the seed, and the only other state a call touches is the
  drawing it appends to: two calls with the same arguments return the same path (or raise
  the same exception) whatever the drawings hold.
\<close>

theorem stroke_line_deterministic:
  "map_sum id fst (stroke_line bg dwg p0 p1 style seed n)
     = map_sum id fst (stroke_line bg dwg' p0 p1 style seed n)"
  by (simp add: stroke_line_def Let_def split: sum.splits prod.splits)

subsection \<open>Drift\<close>

lemma normal_unit_x: "normal (0, 0) (1, 0) = (0, 1)"
  by (simp add: normal_def unit_def hypot_def)

lemma sin_five_half_pi: "sin (5 * pi / 2) = 1"
proof -
  have "sin (5 * pi / 2) = sin (pi / 2 + 2 * pi)"
    by (simp add: field_simps)
  then show ?thesis
    by (simp only: sin_periodic sin_pi_half)
qed

text \<open>
  Claim C1 says that one pair \<open>(phase, a2)\<close> is drawn per stroke and used at every sample.
  The code calls \<^verbatim>\<open>_smooth_offset\<close> inside the sampling loop, and each call draws a new
  pair: sample \<open>i\<close> uses the draws \<open>2i\<close> and \<open>2i + 1\<close> (lemma \<open>stroke_line_ok\<close> with
  \<open>kernel_pts\<close>). On the unit segment with the axis style (amplitude \<open>0.25\<close>, one wave, no
  taper), two samples and a generator whose first phase is \<open>0\<close> and second phase is
  \<open>\<pi>/2\<close>, the code puts the second point at \<open>(1, 1/4)\<close>; with the single pair of the
  specification both points lie on the segment.
\<close>

theorem drift_redrawn_per_sample:
  "stroke_points jitter_bitgen [] (0, 0) (1, 0) axis_style 0 2 = Inr [(0, 0), (1, 1 / 4)]
   \<and> spec_perturb_segment jitter_bitgen (0, 0) (1, 0) axis_style 0 2 = [(0, 0), (1, 0)]"
proof -
  have r: "range_n 2 = [0, 1]"
    by (simp add: range_n_def upt_rec)
  have k: "kernel_pts jitter_bitgen (0, 0) (1, 0) axis_style 0 2 = [(0, 0), (1, 1 / 4)]"
    by (simp add: kernel_pts_def r sample_point_def normal_unit_x axis_style_def taper_k_def
        spec_offset_def jitter_bitgen_def sin_five_half_pi)
  have s: "spec_perturb_segment jitter_bitgen (0, 0) (1, 0) axis_style 0 2 = [(0, 0), (1, 0)]"
    by (simp add: spec_perturb_segment_def r sample_point_def normal_unit_x axis_style_def
        taper_k_def spec_offset_def jitter_bitgen_def)
  from k s show ?thesis
    by (simp add: stroke_points_ok)
qed

section \<open>Dashed strokes\<close>

lemma uniform_range:
  assumes "0 \<le> draws g (cursor g)" "draws g (cursor g) \<le> 1" "lo \<le> hi"
  shows "lo \<le> fst (uniform g lo hi) \<and> fst (uniform g lo hi) \<le> hi"
proof -
  let ?u = "draws g (cursor g)"
  have "0 \<le> (hi - lo) * ?u" using assms by simp
  moreover have "(hi - lo) * ?u \<le> (hi - lo) * 1"
    using assms by (intro mult_left_mono) simp_all
  ultimately show ?thesis by (simp add: uniform_def)
qed

lemma dashed_pts_nonempty: "2 \<le> n \<Longrightarrow> dashed_pts bg p0 p1 style seed n \<noteq> []"
  by (simp add: dashed_pts_def range_n_nonempty)

lemma points_of_push:
  "pts \<noteq> [] \<Longrightarrow>
   points_of ((new_path style da)
                \<lparr>commands := M (hd pts) # map L (tl pts)\<rparr>\<lparr>stroke_dashoffset := z\<rparr>) = pts"
  by (cases pts) (simp_all add: points_of_def comp_def)

text \<open>
  Claim C7: a dashed stroke creates one generator from its seed. The dash length is
  \<open>dash_base\<close> times the first draw, a \<open>uniform(0.85, 1.15)\<close>; the gap length is
  \<open>gap_base\<close> times the second draw, a \<open>uniform(0.85, 1.20)\<close>; the geometry reads the
  next \<open>2n\<close> draws of the same generator; the dash offset is the draw after those, a
  \<open>uniform(0, dash + gap)\<close>. All three are functions of the arguments, so two calls with
  the same arguments agree on them. A call with \<open>n \<le> 1\<close> raises before it emits a path.
\<close>

theorem dashed_stroke_draws:
  "(n \<le> 0 \<longrightarrow> stroke_line_dashed bg dwg p0 p1 style seed n dash_base gap_base = Inl IndexError)
   \<and> (n = 1 \<longrightarrow>
        stroke_line_dashed bg dwg p0 p1 style seed n dash_base gap_base = Inl ZeroDivisionError)
   \<and> (2 \<le> n \<longrightarrow>
        (\<exists>pth. stroke_line_dashed bg dwg p0 p1 style seed n dash_base gap_base
                  = Inr (pth, dwg @ [pth])
          \<and> stroke_dasharray pth =
              Some (dash_base * fst (uniform (Rng (bg seed) 0) 0.85 1.15),
                    gap_base * fst (uniform (Rng (bg seed) 1) 0.85 1.20))
          \<and> stroke_dashoffset pth =
              Some (fst (uniform (Rng (bg seed) (2 + 2 * nat n)) 0
                      (dash_base * fst (uniform (Rng (bg seed) 0) 0.85 1.15)
                       + gap_base * fst (uniform (Rng (bg seed) 1) 0.85 1.20))))
          \<and> points_of pth = dashed_pts bg p0 p1 style seed n))"
proof (intro conjI impI)
  assume "n \<le> 0"
  then show "stroke_line_dashed bg dwg p0 p1 style seed n dash_base gap_base = Inl IndexError"
    by (simp add: stroke_line_dashed_def range_n_def push_pts_def split_beta Let_def)
next
  assume "n = 1"
  then show "stroke_line_dashed bg dwg p0 p1 style seed n dash_base gap_base
               = Inl ZeroDivisionError"
    by (simp add: stroke_line_dashed_def range_n_def stroke_step_raises split_beta Let_def)
next
  assume n2: "2 \<le> n"
  then have n1: "n \<noteq> 1" by simp
  have ne: "dashed_pts bg p0 p1 style seed n \<noteq> []"
    using n2 by (rule dashed_pts_nonempty)
  have loop: "stroke_pts p0 p1 style n (normal p0 p1) (range_n n) (Rng (bg seed) (Suc (Suc 0)))
                = Inr (dashed_pts bg p0 p1 style seed n, Rng (bg seed) (Suc (Suc (2 * nat n))))"
    using stroke_pts_range[OF n1, of p0 p1 style "bg seed" "Suc (Suc 0)"]
    by (simp add: dashed_pts_def)
  show "\<exists>pth. stroke_line_dashed bg dwg p0 p1 style seed n dash_base gap_base
                  = Inr (pth, dwg @ [pth])
          \<and> stroke_dasharray pth =
              Some (dash_base * fst (uniform (Rng (bg seed) 0) 0.85 1.15),
                    gap_base * fst (uniform (Rng (bg seed) 1) 0.85 1.20))
          \<and> stroke_dashoffset pth =
              Some (fst (uniform (Rng (bg seed) (2 + 2 * nat n)) 0
                      (dash_base * fst (uniform (Rng (bg seed) 0) 0.85 1.15)
                       + gap_base * fst (uniform (Rng (bg seed) 1) 0.85 1.20))))
          \<and> points_of pth = dashed_pts bg p0 p1 style seed n"
    using loop push_pts_new[OF ne] points_of_push[OF ne]
    by (simp add: stroke_line_dashed_def default_rng_def uniform_def Let_def new_path_def)
qed

theorem dashed_stroke_draws_witness:
  "(0::int) \<le> 0
   \<and> stroke_line_dashed half_bitgen [] (0, 0) (3, 4) default_style 7 0 9 11 = Inl IndexError
   \<and> stroke_line_dashed half_bitgen [] (0, 0) (3, 4) default_style 7 1 9 11
       = Inl ZeroDivisionError
   \<and> (2::int) \<le> 50
   \<and> (\<exists>pth. stroke_line_dashed half_bitgen [] (0, 0) (3, 4) default_style 7 50 9 11
                = Inr (pth, [] @ [pth])
          \<and> stroke_dasharray pth = Some (9, 11 * (41 / 40))
          \<and> stroke_dashoffset pth = Some ((9 + 11 * (41 / 40)) / 2)
          \<and> points_of pth = dashed_pts half_bitgen (0, 0) (3, 4) default_style 7 50)"
  using dashed_stroke_draws[of 0 half_bitgen "[]" "(0, 0)" "(3, 4)" default_style 7 9 11]
        dashed_stroke_draws[of 1 half_bitgen "[]" "(0, 0)" "(3, 4)" default_style 7 9 11]
        dashed_stroke_draws[of 50 half_bitgen "[]" "(0, 0)" "(3, 4)" default_style 7 9 11]
  by (simp add: uniform_def half_bitgen_def)

section \<open>The plot layer\<close>

subsection \<open>Coordinate mapping\<close>

text \<open>
  Claim C6: for every box with \<open>xmax > xmin\<close>, \<open>ymax > ymin\<close>, \<open>w > 0\<close> and \<open>h > 0\<close>, the
  mapping sends the data corner \<open>(xmin, ymin)\<close> to the device point \<open>(x0, y0 + h)\<close> and
  the data corner \<open>(xmax, ymax)\<close> to \<open>(x0 + w, y0)\<close>, exactly.
\<close>

theorem xy_corners:
  assumes "xmin box < xmax box" "ymin box < ymax box" "0 < w box" "0 < h box"
  shows "xy box (xmin box) (ymin box) = Inr (x0 box, y0 box + h box)
         \<and> xy box (xmax box) (ymax box) = Inr (x0 box + w box, y0 box)"
  using assms by (simp add: xy_def py_div_def)

theorem xy_corners_witness:
  "xmin BOX < xmax BOX \<and> ymin BOX < ymax BOX \<and> 0 < w BOX \<and> 0 < h BOX
   \<and> xy BOX (xmin BOX) (ymin BOX) = Inr (x0 BOX, y0 BOX + h BOX)
   \<and> xy BOX (xmax BOX) (ymax BOX) = Inr (x0 BOX + w BOX, y0 BOX)"
  using xy_corners[of BOX] by (simp add: BOX_def)

text \<open>
  Claim C10: the two divisions of \<^verbatim>\<open>PlotBox.xy\<close> are unguarded. A box with
  \<open>xmax = xmin\<close> or \<open>ymax = ymin\<close> makes every call raise ZeroDivisionError; every
  other box, whatever the order of its bounds and the signs of \<open>w\<close> and \<open>h\<close>, makes
  every call return the affine image: nothing checks the box invariant.
\<close>

theorem xy_division_unguarded:
  "(xmax box = xmin box \<or> ymax box = ymin box \<longrightarrow> xy box x y = Inl ZeroDivisionError)
   \<and> (xmax box \<noteq> xmin box \<and> ymax box \<noteq> ymin box \<longrightarrow>
        xy box x y = Inr (x0 box + (x - xmin box) / (xmax box - xmin box) * w box,
                          y0 box + (1 - (y - ymin box) / (ymax box - ymin box)) * h box))"
  by (simp add: xy_def py_div_def)

theorem xy_division_unguarded_witness:
  "(xmax flat_box = xmin flat_box \<or> ymax flat_box = ymin flat_box)
   \<and> xy flat_box 0 0 = Inl ZeroDivisionError
   \<and> xmax BOX \<noteq> xmin BOX \<and> ymax BOX \<noteq> ymin BOX
   \<and> xy BOX 0 0 = Inr (x0 BOX + (0 - xmin BOX) / (xmax BOX - xmin BOX) * w BOX,
                          y0 BOX + (1 - (0 - ymin BOX) / (ymax BOX - ymin BOX)) * h BOX)"
  using xy_division_unguarded[of flat_box 0 0] xy_division_unguarded[of BOX 0 0]
  by (simp add: BOX_def flat_box_def)

section \<open>Polylines\<close>

lemma stroke_line_path:
  "2 \<le> n \<Longrightarrow> stroke_line bg dwg p0 p1 style seed n =
     Inr (stroke_path bg p0 p1 style seed n, dwg @ [stroke_path bg p0 p1 style seed n])"
  by (simp add: stroke_line_ok stroke_path_def)

lemma points_of_stroke_path:
  "2 \<le> n \<Longrightarrow> points_of (stroke_path bg p0 p1 style seed n) = kernel_pts bg p0 p1 style seed n"
  by (simp add: stroke_path_def points_of_path_of kernel_pts_nonempty)

lemma polyline_loop_ok:
  assumes "2 \<le> n_per_seg"
  shows "polyline_loop bg dwg points style seed n_per_seg i =
           Inr (dwg @ map (\<lambda>j. stroke_path bg (points ! j) (points ! Suc j) style
                                 (seed + int (i + j) * 97) n_per_seg)
                        [0..<length points - 1])"
  using assms
proof (induction bg dwg points style seed n_per_seg i rule: polyline_loop.induct)
  case (1 bg dwg p q rest style seed n_per_seg i)
  have "map (\<lambda>j. stroke_path bg ((p # q # rest) ! j) ((p # q # rest) ! Suc j) style
                   (seed + int (i + j) * 97) n_per_seg) [0..<length (p # q # rest) - 1]
        = stroke_path bg p q style (seed + int i * 97) n_per_seg
          # map (\<lambda>j. stroke_path bg ((q # rest) ! j) ((q # rest) ! Suc j) style
                       (seed + int (Suc i + j) * 97) n_per_seg) [0..<length (q # rest) - 1]"
    by (simp add: upt_rec[of 0] map_Suc_upt[symmetric] algebra_simps del: upt_Suc)
  with 1 show ?case
    by (simp add: stroke_line_path del: upt_Suc)
qed simp_all

lemma stroke_polyline_ok:
  assumes "2 \<le> n_per_seg"
  shows "stroke_polyline bg dwg points style seed n_per_seg =
           Inr (dwg @ polyline_paths bg points style seed n_per_seg)"
proof (cases "length points < 2")
  case True
  then have "length points - 1 = 0" by simp
  with True show ?thesis
    by (simp add: stroke_polyline_def polyline_paths_def)
next
  case False
  then show ?thesis
    using polyline_loop_ok[OF assms, of bg dwg points style seed 0]
    by (simp add: stroke_polyline_def polyline_paths_def)
qed

lemma length_polyline_paths:
  "length (polyline_paths bg points style seed n_per_seg) = length points - 1"
  by (simp add: polyline_paths_def)

text \<open>
  Claim C5, as the code has it: a polyline over fewer than two points returns the drawing
  unchanged, without an error. A polyline over \<open>k \<ge> 2\<close> points with at least two samples
  per segment appends exactly \<open>k - 1\<close> paths, and path \<open>i\<close> is the one the kernel
  returns for the segment from \<open>points[i]\<close> to \<open>points[i + 1]\<close> with the seed
  \<open>seed + i * 97\<close>.
\<close>

theorem polyline_strokes:
  "(length points < 2 \<longrightarrow> stroke_polyline bg dwg points style seed n_per_seg = Inr dwg)
   \<and> (2 \<le> length points \<and> 2 \<le> n_per_seg \<longrightarrow>
        (\<exists>paths. stroke_polyline bg dwg points style seed n_per_seg = Inr (dwg @ paths)
           \<and> length paths = length points - 1
           \<and> (\<forall>i < length points - 1. \<forall>d.
                 stroke_line bg d (points ! i) (points ! Suc i) style (seed + int i * 97)
                   n_per_seg = Inr (paths ! i, d @ [paths ! i]))))"
proof (intro conjI impI)
  assume "length points < 2"
  then show "stroke_polyline bg dwg points style seed n_per_seg = Inr dwg"
    by (simp add: stroke_polyline_def)
next
  assume a: "2 \<le> length points \<and> 2 \<le> n_per_seg"
  let ?paths = "polyline_paths bg points style seed n_per_seg"
  have "stroke_polyline bg dwg points style seed n_per_seg = Inr (dwg @ ?paths)"
    using a by (simp add: stroke_polyline_ok)
  moreover have "length ?paths = length points - 1"
    by (rule length_polyline_paths)
  moreover have "\<forall>i < length points - 1. \<forall>d.
       stroke_line bg d (points ! i) (points ! Suc i) style (seed + int i * 97) n_per_seg
         = Inr (?paths ! i, d @ [?paths ! i])"
    using a by (simp add: polyline_paths_def stroke_line_path)
  ultimately show "\<exists>paths. stroke_polyline bg dwg points style seed n_per_seg = Inr (dwg @ paths)
           \<and> length paths = length points - 1
           \<and> (\<forall>i < length points - 1. \<forall>d.
                 stroke_line bg d (points ! i) (points ! Suc i) style (seed + int i * 97)
                   n_per_seg = Inr (paths ! i, d @ [paths ! i]))"
    by blast
qed

theorem polyline_strokes_witness:
  "length ([(1, 1)] :: point list) < 2
   \<and> stroke_polyline half_bitgen [] [(1, 1)] default_style 5 30 = Inr []
   \<and> 2 \<le> length [(0, 0), (3, 4), (6, 0) :: point] \<and> (2::int) \<le> 30
   \<and> (\<exists>paths. stroke_polyline half_bitgen [] [(0, 0), (3, 4), (6, 0)] default_style 5 30
                  = Inr ([] @ paths)
           \<and> length paths = 2
           \<and> stroke_line half_bitgen [] (0, 0) (3, 4) default_style 5 30
               = Inr (paths ! 0, [] @ [paths ! 0])
           \<and> stroke_line half_bitgen [] (3, 4) (6, 0) default_style (5 + 1 * 97) 30
               = Inr (paths ! 1, [] @ [paths ! 1]))"
proof -
  from polyline_strokes[of "[(0, 0), (3, 4), (6, 0)]" half_bitgen "[]" default_style 5 30]
  obtain paths where
    a: "stroke_polyline half_bitgen [] [(0, 0), (3, 4), (6, 0)] default_style 5 30
          = Inr ([] @ paths)"
    and b: "length paths = 2"
    and c: "\<forall>i<2. \<forall>d. stroke_line half_bitgen d ([(0, 0), (3, 4), (6, 0)] ! i)
                   ([(0, 0), (3, 4), (6, 0)] ! Suc i) default_style (5 + int i * 97) 30
                   = Inr (paths ! i, d @ [paths ! i])"
    by auto
  from c have c0: "stroke_line half_bitgen [] (0, 0) (3, 4) default_style 5 30
               = Inr (paths ! 0, [] @ [paths ! 0])"
    by (auto dest: spec[of _ 0])
  from c have c1: "stroke_line half_bitgen [] (3, 4) (6, 0) default_style (5 + 1 * 97) 30
               = Inr (paths ! 1, [] @ [paths ! 1])"
    by (auto dest: spec[of _ 1])
  from a b c0 c1 polyline_strokes[of "[(1, 1)]" half_bitgen "[]" default_style 5 30]
  show ?thesis
    by (intro conjI exI[of _ paths]) simp_all
qed

text \<open>
  Claim C5 as stated covers every polyline call on \<open>k \<ge> 2\<close> points. With one sample per
  segment the first kernel call divides by zero, so the polyline over two points raises and
  emits no stroke at all.
\<close>

theorem polyline_one_sample_per_segment_raises:
  "stroke_polyline half_bitgen [] [(0, 0), (3, 4)] default_style 5 1 = Inl ZeroDivisionError"
  by (simp add: stroke_polyline_def stroke_line_one)

section \<open>Sampling a function and drawing it\<close>

lemma xy_ok:
  "xmax box \<noteq> xmin box \<Longrightarrow> ymax box \<noteq> ymin box \<Longrightarrow>
   xy box x y = Inr (x0 box + (x - xmin box) / (xmax box - xmin box) * w box,
                     y0 box + (1 - (y - ymin box) / (ymax box - ymin box)) * h box)"
  by (simp add: xy_def py_div_def)

lemma sample_func_loop_ok:
  assumes "xmax box \<noteq> xmin box" "ymax box \<noteq> ymin box" "n \<noteq> 1"
  shows "sample_func_loop box f n js = Inr (map (sampled_point box f n) js)"
  using assms
  by (induction js) (simp_all add: py_div_def xy_ok sampled_point_def Let_def)

lemma sample_func_ok:
  assumes "xmax box \<noteq> xmin box" "ymax box \<noteq> ymin box" "n \<noteq> 1"
  shows "sample_func box f n = Inr (map (sampled_point box f n) (range_n n))"
  using assms by (simp add: sample_func_def sample_func_loop_ok)

lemma BOX_proper: "xmax BOX \<noteq> xmin BOX" "ymax BOX \<noteq> ymin BOX"
  by (simp_all add: BOX_def)

lemma sampled_point_first:
  "xmax box \<noteq> xmin box \<Longrightarrow> ymax box \<noteq> ymin box \<Longrightarrow>
   xy box (xmin box) (f (xmin box)) = Inr (sampled_point box f n 0)"
  by (simp add: xy_ok sampled_point_def)

lemma hd_polyline_paths:
  assumes "2 \<le> length points" "2 \<le> n_per_seg" "0 < taper style"
  shows "hd (points_of (hd (polyline_paths bg points style seed n_per_seg))) = hd points"
proof -
  from assms(1) obtain p q rest where pts: "points = p # q # rest"
    by (cases points; cases "tl points") auto
  have "hd (polyline_paths bg points style seed n_per_seg)
          = stroke_path bg p q style seed n_per_seg"
    by (simp add: polyline_paths_def pts upt_rec[of 0] del: upt_Suc)
  then show ?thesis
    using assms(2,3) by (simp add: points_of_stroke_path hd_kernel_pts pts)
qed

lemma points_per_polyline_path:
  assumes "2 \<le> n_per_seg"
  shows "map (\<lambda>pth. length (points_of pth)) (polyline_paths bg points style seed n_per_seg)
           = replicate (length points - 1) (nat n_per_seg)"
  using assms
  by (simp add: polyline_paths_def comp_def points_of_stroke_path length_kernel_pts
      map_replicate_const)

text \<open>
  Claim C8: the parabola figure of the gallery. Sampling \<open>f(x) = 0.35 (x - 1.6)\<^sup>2 - 1.3\<close>
  at \<open>n = 110\<close> over the gallery's box returns 110 device points; drawing them as a curve
  with the data style, seed 100 and 12 samples per segment appends exactly 109 paths of
  12 points each, for every generator and every drawing; and the first point of the first
  path is the box image of \<open>(xmin, f(xmin))\<close>, the device point \<open>(120, 483.44)\<close>. In the
  real-number model the two points are equal, not only close.
\<close>

theorem parabola_scenario:
  "\<exists>pts paths.
      sample_func BOX parabola_f 110 = Inr pts
    \<and> length pts = 110
    \<and> draw_curve bg dwg pts data_style 100 12 = Inr (dwg @ paths)
    \<and> length paths = 109
    \<and> map (\<lambda>pth. length (points_of pth)) paths = replicate 109 12
    \<and> xy BOX (xmin BOX) (parabola_f (xmin BOX)) = Inr (hd (points_of (hd paths)))
    \<and> hd (points_of (hd paths)) = (120, 483.44)"
proof -
  let ?pts = "map (sampled_point BOX parabola_f 110) (range_n 110)"
  let ?paths = "polyline_paths bg ?pts data_style 100 12"
  have len: "length ?pts = 110"
    by (simp add: range_n_def)
  have s: "sample_func BOX parabola_f 110 = Inr ?pts"
    by (rule sample_func_ok) (simp_all add: BOX_proper)
  have d: "draw_curve bg dwg ?pts data_style 100 12 = Inr (dwg @ ?paths)"
    by (simp add: draw_curve_def stroke_polyline_ok)
  have l: "length ?paths = 109"
    by (simp add: length_polyline_paths range_n_def)
  have m: "map (\<lambda>pth. length (points_of pth)) ?paths = replicate 109 12"
    using points_per_polyline_path[of 12 bg ?pts data_style 100] len by simp
  have "hd (points_of (hd ?paths)) = hd ?pts"
    by (rule hd_polyline_paths) (simp_all add: range_n_def data_style_def)
  also have "hd ?pts = sampled_point BOX parabola_f 110 0"
    by (simp add: range_n_nonempty)
  finally have f: "xy BOX (xmin BOX) (parabola_f (xmin BOX)) = Inr (hd (points_of (hd ?paths)))"
    by (simp add: sampled_point_first BOX_proper)
  have "xy BOX (xmin BOX) (parabola_f (xmin BOX)) = Inr (120, 483.44)"
    by (simp add: xy_def py_div_def BOX_def parabola_f_def)
  with f have v: "hd (points_of (hd ?paths)) = (120, 483.44)"
    by simp
  from len s d l m f v show ?thesis by blast
qed

section \<open>Axes\<close>

lemma ticks_loop_Cons:
  "ticks_loop bg dwg axis_p0 axis_p1 (normal axis_p0 axis_p1) (t # ts) tick_len style seed i =
     ticks_loop bg (dwg @ [tick_stroke bg axis_p0 axis_p1 t tick_len style (seed + int i * 31)])
       axis_p0 axis_p1 (normal axis_p0 axis_p1) ts tick_len style seed (Suc i)"
  by (simp add: Let_def stroke_line_path tick_stroke_def)

lemma ticks_loop_ok:
  "ticks_loop bg dwg axis_p0 axis_p1 (normal axis_p0 axis_p1) ts tick_len style seed i =
     Inr (dwg @ map (\<lambda>j. tick_stroke bg axis_p0 axis_p1 (ts ! j) tick_len style
                           (seed + int (i + j) * 31))
                  [0..<length ts])"
proof (induction ts arbitrary: dwg i)
  case Nil
  then show ?case by simp
next
  case (Cons t ts)
  have "map (\<lambda>j. tick_stroke bg axis_p0 axis_p1 ((t # ts) ! j) tick_len style
                   (seed + int (i + j) * 31)) [0..<length (t # ts)]
        = tick_stroke bg axis_p0 axis_p1 t tick_len style (seed + int i * 31)
          # map (\<lambda>j. tick_stroke bg axis_p0 axis_p1 (ts ! j) tick_len style
                       (seed + int (Suc i + j) * 31)) [0..<length ts]"
    by (simp add: upt_rec[of 0] map_Suc_upt[symmetric] algebra_simps del: upt_Suc)
  with Cons show ?case
    by (simp add: ticks_loop_Cons algebra_simps del: upt_Suc ticks_loop.simps)
qed

lemma ticks_on_axis_ok:
  "ticks_on_axis bg dwg axis_p0 axis_p1 ts tick_len style seed =
     Inr (dwg @ map (\<lambda>j. tick_stroke bg axis_p0 axis_p1 (ts ! j) tick_len style
                           (seed + int j * 31))
                  [0..<length ts])"
  using ticks_loop_ok[of bg dwg axis_p0 axis_p1 ts tick_len style seed 0]
  by (simp add: ticks_on_axis_def)

lemma arrow_head_gesture_ok:
  "\<exists>a b c d. \<forall>dwg. arrow_head_gesture bg dwg tip direction style seed sz ang
                      = Inr (dwg @ [a, b, c, d])"
  by (simp add: arrow_head_gesture_def Let_def split_beta stroke_line_path)

lemma tick_fractions_index:
  "map (\<lambda>j. F (tick_fractions ticks ! j) (int j)) [0..<length (tick_fractions ticks)]
     = map (\<lambda>i. F (real_of_int i / real_of_int ticks) (i - 1)) [1..ticks - 1]"
proof (rule nth_equalityI)
  show "length (map (\<lambda>j. F (tick_fractions ticks ! j) (int j))
                  [0..<length (tick_fractions ticks)])
        = length (map (\<lambda>i. F (real_of_int i / real_of_int ticks) (i - 1)) [1..ticks - 1])"
    by (simp add: tick_fractions_def)
next
  fix j
  assume "j < length (map (\<lambda>j. F (tick_fractions ticks ! j) (int j))
                        [0..<length (tick_fractions ticks)])"
  then have j: "j < length [1..ticks - 1]"
    by (simp add: tick_fractions_def)
  then have "1 + int j \<le> ticks - 1" by simp
  then have nth: "[1..ticks - 1] ! j = 1 + int j"
    by (rule nth_upto)
  from j nth show "map (\<lambda>j. F (tick_fractions ticks ! j) (int j))
                     [0..<length (tick_fractions ticks)] ! j
        = map (\<lambda>i. F (real_of_int i / real_of_int ticks) (i - 1)) [1..ticks - 1] ! j"
    by (simp add: tick_fractions_def)
qed

lemma ticks_on_axis_fractions:
  "ticks_on_axis bg dwg axis_p0 axis_p1 (tick_fractions ticks) 20 style seed =
     Inr (dwg @ axis_ticks bg axis_p0 axis_p1 style seed ticks)"
  using tick_fractions_index[of "\<lambda>t k. tick_stroke bg axis_p0 axis_p1 t 20 style (seed + k * 31)" ticks]
  by (simp add: ticks_on_axis_ok axis_ticks_def)

text \<open>Each tick stroke is what the kernel returns for its two end points, with 12 samples.\<close>

lemma tick_stroke_kernel_call:
  "stroke_line bg dwg
     (fst axis_p0 + (fst axis_p1 - fst axis_p0) * t - fst (normal axis_p0 axis_p1) * tick_len / 2,
      snd axis_p0 + (snd axis_p1 - snd axis_p0) * t - snd (normal axis_p0 axis_p1) * tick_len / 2)
     (fst axis_p0 + (fst axis_p1 - fst axis_p0) * t + fst (normal axis_p0 axis_p1) * tick_len / 2,
      snd axis_p0 + (snd axis_p1 - snd axis_p0) * t + snd (normal axis_p0 axis_p1) * tick_len / 2)
     style seed 12
   = Inr (tick_stroke bg axis_p0 axis_p1 t tick_len style seed,
          dwg @ [tick_stroke bg axis_p0 axis_p1 t tick_len style seed])"
  by (simp add: stroke_line_path tick_stroke_def Let_def)

lemma length_axis_ticks: "length (axis_ticks bg axis_p0 axis_p1 style seed ticks) = nat (ticks - 1)"
  by (simp add: axis_ticks_def)

text \<open>
  On a box with a proper data window, \<^verbatim>\<open>draw_axes\<close> first appends the two axis strokes
  and, with arrows, the eight strokes of the two arrowheads: the base. With \<open>ticks \<le> 0\<close>
  nothing else is drawn. With \<open>ticks \<ge> 1\<close> the base is followed by the tick strokes of
  the bottom axis and then those of the left axis, one at each fraction \<open>i / ticks\<close> for
  \<open>i = 1 .. ticks - 1\<close>, each laid along the normal of its axis.
\<close>

lemma draw_axes_ticks:
  assumes "xmax box \<noteq> xmin box" "ymax box \<noteq> ymin box"
  shows "\<exists>base. length base = (if arrows then 10 else 2)
           \<and> (\<forall>ticks. ticks \<le> 0 \<longrightarrow>
                 draw_axes bg dwg box style seed ticks arrows = Inr (dwg @ base))
           \<and> (\<forall>ticks. 1 \<le> ticks \<longrightarrow>
                 draw_axes bg dwg box style seed ticks arrows =
                   Inr (dwg @ base
                        @ axis_ticks bg (x0 box, y0 box + h box) (x0 box + w box, y0 box + h box)
                            style (seed + 10) ticks
                        @ axis_ticks bg (x0 box, y0 box + h box) (x0 box, y0 box)
                            style (seed + 20) ticks))"
proof -
  let ?origin = "(x0 box, y0 box + h box)"
  let ?x_end = "(x0 box + w box, y0 box + h box)"
  let ?y_end = "(x0 box, y0 box)"
  have o: "xy box (xmin box) (ymin box) = Inr ?origin"
    and x: "xy box (xmax box) (ymin box) = Inr ?x_end"
    and y: "xy box (xmin box) (ymax box) = Inr ?y_end"
    using assms by (simp_all add: xy_ok)
  let ?ax = "[stroke_path bg ?origin ?x_end style (seed + 1) 90,
              stroke_path bg ?origin ?y_end style (seed + 2) 90]"
  obtain a1 b1 c1 d1 where g1:
    "\<And>d. arrow_head_gesture bg d ?x_end (1, 0) style (seed + 3) 14 30 = Inr (d @ [a1, b1, c1, d1])"
    using arrow_head_gesture_ok[of bg ?x_end "(1, 0)" style "seed + 3" 14 30] by blast
  obtain a2 b2 c2 d2 where g2:
    "\<And>d. arrow_head_gesture bg d ?y_end (0, - 1) style (seed + 4) 14 30 = Inr (d @ [a2, b2, c2, d2])"
    using arrow_head_gesture_ok[of bg ?y_end "(0, - 1)" style "seed + 4" 14 30] by blast
  let ?base = "?ax @ (if arrows then [a1, b1, c1, d1, a2, b2, c2, d2] else [])"
  have len: "length ?base = (if arrows then 10 else 2)"
    by simp
  have none: "\<forall>ticks. ticks \<le> 0 \<longrightarrow> draw_axes bg dwg box style seed ticks arrows = Inr (dwg @ ?base)"
    by (simp add: draw_axes_def Let_def o x y stroke_line_path g1 g2)
  have some: "\<forall>ticks. 1 \<le> ticks \<longrightarrow>
                 draw_axes bg dwg box style seed ticks arrows =
                   Inr (dwg @ ?base
                        @ axis_ticks bg ?origin ?x_end style (seed + 10) ticks
                        @ axis_ticks bg ?origin ?y_end style (seed + 20) ticks)"
    by (simp add: draw_axes_def Let_def o x y stroke_line_path g1 g2 ticks_on_axis_fractions)
  from len none some show ?thesis by blast
qed

subsection \<open>Ticks are perpendicular to their axis\<close>

text \<open>
  The vector \<^verbatim>\<open>_normal\<close> returns is orthogonal to the segment and, unless the segment
  has length zero, of length one. A tick stroke runs from half the tick length on one side of
  the axis point to half the tick length on the other, along that vector.
\<close>

lemma normal_perpendicular:
  "fst (normal p0 p1) * (fst p1 - fst p0) + snd (normal p0 p1) * (snd p1 - snd p0) = 0"
  by (simp add: normal_def unit_def Let_def)

lemma normal_unit_length:
  assumes "p0 \<noteq> p1"
  shows "(fst (normal p0 p1))\<^sup>2 + (snd (normal p0 p1))\<^sup>2 = 1"
proof -
  let ?dx = "fst p1 - fst p0"
  let ?dy = "snd p1 - snd p0"
  from assms have nz: "?dx \<noteq> 0 \<or> ?dy \<noteq> 0"
    by (auto simp: prod_eq_iff)
  then have pos: "0 < ?dx\<^sup>2 + ?dy\<^sup>2"
    by (auto simp: sum_power2_gt_zero_iff)
  with nz have h: "hypot ?dx ?dy \<noteq> 0" "(hypot ?dx ?dy)\<^sup>2 = ?dx\<^sup>2 + ?dy\<^sup>2"
    by (simp_all add: hypot_def)
  have "(?dy / hypot ?dx ?dy)\<^sup>2 + (?dx / hypot ?dx ?dy)\<^sup>2
          = (?dx\<^sup>2 + ?dy\<^sup>2) / (hypot ?dx ?dy)\<^sup>2"
    by (simp add: power_divide add_divide_distrib)
  also have "\<dots> = 1"
    using h(2) nz by simp
  finally show ?thesis
    using h(1) by (simp add: normal_def unit_def Let_def)
qed

lemma tick_stroke_ends:
  "tick_stroke bg axis_p0 axis_p1 t tick_len style seed =
     stroke_path bg
       (fst axis_p0 + (fst axis_p1 - fst axis_p0) * t - fst (normal axis_p0 axis_p1) * tick_len / 2,
        snd axis_p0 + (snd axis_p1 - snd axis_p0) * t - snd (normal axis_p0 axis_p1) * tick_len / 2)
       (fst axis_p0 + (fst axis_p1 - fst axis_p0) * t + fst (normal axis_p0 axis_p1) * tick_len / 2,
        snd axis_p0 + (snd axis_p1 - snd axis_p0) * t + snd (normal axis_p0 axis_p1) * tick_len / 2)
       style seed 12"
  by (simp add: tick_stroke_def Let_def)

lemma normal_bottom_axis: "0 < d \<Longrightarrow> normal (a, c) (a + d, c) = (0, 1)"
  by (simp add: normal_def unit_def hypot_def)

lemma normal_left_axis: "0 < d \<Longrightarrow> normal (a, c + d) (a, c) = (1, 0)"
  by (simp add: normal_def unit_def hypot_def)

lemma axis_ticks_bottom:
  assumes "0 < w box"
  shows "axis_ticks bg (x0 box, y0 box + h box) (x0 box + w box, y0 box + h box) style seed ticks
           = bottom_axis_ticks bg box style seed ticks"
  using assms
  by (simp add: axis_ticks_def bottom_axis_ticks_def tick_stroke_ends normal_bottom_axis
      mult.commute)

lemma axis_ticks_left:
  assumes "0 < h box"
  shows "axis_ticks bg (x0 box, y0 box + h box) (x0 box, y0 box) style seed ticks
           = left_axis_ticks bg box style seed ticks"
proof -
  have n: "normal (x0 box, y0 box + h box) (x0 box, y0 box) = (1, 0)"
    using assms by (rule normal_left_axis)
  show ?thesis
    by (simp add: axis_ticks_def left_axis_ticks_def tick_stroke_ends n)
qed

text \<open>
  Claim C9: on a box that satisfies its invariant (\<open>xmax > xmin\<close>, \<open>ymax > ymin\<close>,
  \<open>w > 0\<close>, \<open>h > 0\<close>), \<^verbatim>\<open>draw_axes\<close> first appends the two axis strokes and, with
  arrows, the eight strokes of the two arrowheads: the base. With \<open>ticks \<le> 0\<close> nothing else
  is drawn. With \<open>ticks \<ge> 1\<close> the base is followed by exactly \<open>ticks - 1\<close> tick strokes on
  the bottom axis and then \<open>ticks - 1\<close> on the left axis, one at each fraction \<open>i / ticks\<close>
  for \<open>i = 1 .. ticks - 1\<close> and none at the fractions \<open>0\<close> and \<open>1\<close>. Each tick is
  perpendicular to its axis: on the horizontal bottom axis it is the kernel's stroke between
  the points 10 units below and above the axis point, on the vertical left axis between the
  points 10 units to either side of it.
\<close>

theorem axes_tick_fractions:
  assumes "xmin box < xmax box" "ymin box < ymax box" "0 < w box" "0 < h box"
  shows "\<exists>base. length base = (if arrows then 10 else 2)
           \<and> (\<forall>ticks. ticks \<le> 0 \<longrightarrow>
                 draw_axes bg dwg box style seed ticks arrows = Inr (dwg @ base))
           \<and> (\<forall>ticks. 1 \<le> ticks \<longrightarrow>
                 draw_axes bg dwg box style seed ticks arrows =
                   Inr (dwg @ base
                        @ bottom_axis_ticks bg box style (seed + 10) ticks
                        @ left_axis_ticks bg box style (seed + 20) ticks)
                 \<and> length (bottom_axis_ticks bg box style (seed + 10) ticks) = nat (ticks - 1)
                 \<and> length (left_axis_ticks bg box style (seed + 20) ticks) = nat (ticks - 1))"
proof -
  from assms have "xmax box \<noteq> xmin box" "ymax box \<noteq> ymin box"
    by simp_all
  from draw_axes_ticks[OF this, of arrows bg dwg style seed]
  show ?thesis
    using assms(3,4)
    by (simp add: axis_ticks_bottom axis_ticks_left bottom_axis_ticks_def left_axis_ticks_def)
qed

theorem axes_tick_fractions_witness:
  "xmin BOX < xmax BOX \<and> ymin BOX < ymax BOX \<and> 0 < w BOX \<and> 0 < h BOX
   \<and> (\<exists>base. length base = 10
         \<and> (0::int) \<le> 0
         \<and> draw_axes half_bitgen [] BOX axis_style 1 0 True = Inr ([] @ base)
         \<and> (1::int) \<le> 6
         \<and> draw_axes half_bitgen [] BOX axis_style 1 6 True =
             Inr ([] @ base
                  @ bottom_axis_ticks half_bitgen BOX axis_style (1 + 10) 6
                  @ left_axis_ticks half_bitgen BOX axis_style (1 + 20) 6)
         \<and> length (bottom_axis_ticks half_bitgen BOX axis_style (1 + 10) 6) = nat (6 - 1)
         \<and> length (left_axis_ticks half_bitgen BOX axis_style (1 + 20) 6) = nat (6 - 1))"
proof -
  have p: "xmin BOX < xmax BOX" "ymin BOX < ymax BOX" "0 < w BOX" "0 < h BOX"
    by (simp_all add: BOX_def)
  from axes_tick_fractions[OF p, where arrows = True and bg = half_bitgen and dwg = "[]"
      and style = axis_style and seed = 1]
  obtain base where "length base = 10"
    and "\<forall>ticks\<le>0. draw_axes half_bitgen [] BOX axis_style 1 ticks True = Inr ([] @ base)"
    and "\<forall>ticks\<ge>1. draw_axes half_bitgen [] BOX axis_style 1 ticks True =
             Inr ([] @ base
                  @ bottom_axis_ticks half_bitgen BOX axis_style (1 + 10) ticks
                  @ left_axis_ticks half_bitgen BOX axis_style (1 + 20) ticks)
             \<and> length (bottom_axis_ticks half_bitgen BOX axis_style (1 + 10) ticks) = nat (ticks - 1)
             \<and> length (left_axis_ticks half_bitgen BOX axis_style (1 + 20) ticks) = nat (ticks - 1)"
    by auto
  with p show ?thesis
    by (intro conjI exI[of _ base]) simp_all
qed

end
